theory Spec2Isabelle
  imports Complex_Main "HOL-Library.Word"
begin

section \<open>libluavars: the Lua binding of the variable server\<close>

text \<open>
  The library \<^verbatim>\<open>src/libluavars.c\<close> registers ten C functions with a Lua interpreter.
  Each of them reads its arguments from the Lua stack, calls the variable server's
  client library (and a few functions of the C library), pushes its results on the
  Lua stack and returns how many of the topmost stack values are its results.

  The embedding keeps this shape. A function of the source is a function from the
  state of the process to the state after the call, paired with either the number of
  results or the error that ended the call. The client library, the C library and the
  Lua runtime are not part of the repository: their answers are the fields of one
  record \<open>extern\<close>, every answer a function of the calls made so far and of the
  call's arguments, and every call the source makes is appended to a trace.

  The registered functions are static and reach Lua only through the registration
  table, so their argument \<^verbatim>\<open>L\<close> is the interpreter that runs them: the tests
  \<^verbatim>\<open>L != NULL\<close> of the source are true, and the state below is the state that
  \<^verbatim>\<open>L\<close> points to. Likewise \<^verbatim>\<open>luaL_checklstring\<close>,
  \<^verbatim>\<open>luaL_checkudata\<close> and \<^verbatim>\<open>lua_newuserdata\<close> raise a Lua error
  instead of returning a null pointer, so the tests of their results against
  \<^verbatim>\<open>NULL\<close> are true whenever they are reached.
\<close>

subsection \<open>Values of the variable server\<close>

text \<open>
  \<^verbatim>\<open>VAR_HANDLE\<close> and the transaction identifiers are unsigned 32-bit numbers;
  \<^verbatim>\<open>VARSERVER_HANDLE\<close> is a pointer, \<open>None\<close> being \<^verbatim>\<open>NULL\<close>.
\<close>

type_synonym VAR_HANDLE = "32 word"
type_synonym VARSERVER_HANDLE = "nat option"

text \<open>
  The kinds of a variable that the source names, and \<open>VARTYPE_OTHER\<close> for every
  other value of the enumeration (the \<^verbatim>\<open>default\<close> branch of the switches).
\<close>

datatype VarType =
    VARTYPE_STR
  | VARTYPE_INT16
  | VARTYPE_UINT16
  | VARTYPE_INT32
  | VARTYPE_UINT32
  | VARTYPE_INT64
  | VARTYPE_UINT64
  | VARTYPE_FLOAT
  | VARTYPE_OTHER nat

text \<open>
  \<^verbatim>\<open>VarObject\<close>: the kind, the length of the string buffer and the views of the
  union \<^verbatim>\<open>val\<close> that the source reads, each with the width and sign of the kind
  it is read for. The source reads exactly one view, the one its switch selects by
  \<open>var_type\<close>. A C \<^verbatim>\<open>float\<close> or \<^verbatim>\<open>double\<close> is modelled by the real
  number it denotes.
\<close>

record VarObject =
  var_type :: VarType
  var_len :: nat
  val_str :: string
  val_i :: "16 word"
  val_ui :: "16 word"
  val_l :: "32 word"
  val_ul :: "32 word"
  val_ll :: "64 word"
  val_ull :: "64 word"
  val_f :: real

subsection \<open>Values of Lua and the print session object\<close>

type_synonym lua_Number = real

datatype lua_value =
    LuaNil
  | LuaBoolean bool
  | LuaNumber lua_Number
  | LuaString string
  | LuaTable
  | LuaUserdata nat

text \<open>
  \<^verbatim>\<open>LuaPrintSession\<close>. \<open>stream_f\<close> is the \<^verbatim>\<open>FILE *\<close> of the embedded
  \<^verbatim>\<open>luaL_Stream\<close> (\<open>None\<close> is \<^verbatim>\<open>NULL\<close>), \<open>stream_closef\<close> tells
  whether its close function is set.
\<close>

record LuaPrintSession =
  stream_f :: "nat option"
  stream_closef :: bool
  session_fd :: int
  session_id :: "32 word"
  session_hVar :: VAR_HANDLE

text \<open>
  The userdata blocks that carry the metatable \<^verbatim>\<open>LUA_FILEHANDLE\<close>: the print
  sessions of this library, and the files of Lua's own io library, whose block is a bare
  \<^verbatim>\<open>luaL_Stream\<close> (the \<^verbatim>\<open>FILE *\<close> and whether the close function is set).
\<close>

datatype userdata_block =
    UD_PrintSession LuaPrintSession
  | UD_Stream "nat option" bool

subsection \<open>The calls that leave the library\<close>

datatype call =
    Call_VARSERVER_Open
  | Call_VARSERVER_Close VARSERVER_HANDLE
  | Call_VAR_FindByName VARSERVER_HANDLE string
  | Call_VAR_Get VARSERVER_HANDLE VAR_HANDLE nat
  | Call_VAR_GetType VARSERVER_HANDLE VAR_HANDLE
  | Call_VAR_SetStr VARSERVER_HANDLE VAR_HANDLE VarType string
  | Call_VAR_GetValidationRequest VARSERVER_HANDLE "32 word" nat
  | Call_VAR_OpenPrintSession VARSERVER_HANDLE "32 word"
  | Call_VAR_ClosePrintSession VARSERVER_HANDLE "32 word" int
  | Call_fdopen int string
  | Call_fclose nat
  | Call_sigprocmask_BLOCK "int set"
  | Call_sigwaitinfo "int set"

text \<open>
  How a call ends when it does not return a number of results: with a Lua error raised
  by a \<^verbatim>\<open>luaL_check\<close> function, in behaviour that C leaves undefined, or never,
  because \<^verbatim>\<open>sigwaitinfo\<close> does not return.
\<close>

datatype error =
    LuaError string
  | UndefinedBehaviour string
  | BlocksForever

text \<open>
  What the headers \<^verbatim>\<open>varserver/varserver.h\<close>, \<^verbatim>\<open>varserver/var.h\<close>,
  \<^verbatim>\<open>stdio.h\<close> and \<^verbatim>\<open>signal.h\<close> define, taken as parameters.
\<close>

record header =
  EOK :: int
  VAR_INVALID :: VAR_HANDLE
  BUFSIZ :: nat
  SIGRTMIN :: int
  SIG_VAR_MODIFIED :: int
  SIG_VAR_CALC :: int
  SIG_VAR_VALIDATE :: int
  SIG_VAR_PRINT :: int

text \<open>
  The answers of the functions outside the repository. The first argument of each
  is the trace at the moment of the call. A function with output parameters answers
  with a tuple: the status first, the outputs after it. \<open>sigwaitinfo\<close> answers
  \<open>None\<close> when no signal of the set is ever delivered, and otherwise with
  its return value and with the field \<^verbatim>\<open>si_sigval.sival_int\<close> that the source
  reads from the \<^verbatim>\<open>siginfo_t\<close> afterwards (whatever that memory holds when the
  wait failed). \<open>lua_number2str\<close> and \<open>lua_str2number\<close> are the conversions of the
  Lua runtime between numbers and their text; \<open>int64_to_double\<close> is the conversion
  of a 64-bit integer to \<^verbatim>\<open>double\<close>, which rounds (a 16-bit or 32-bit integer is
  converted exactly).
\<close>

record extern = header +
  VARSERVER_Open :: "call list \<Rightarrow> VARSERVER_HANDLE"
  VAR_FindByName :: "call list \<Rightarrow> VARSERVER_HANDLE \<Rightarrow> string \<Rightarrow> VAR_HANDLE"
  VAR_Get :: "call list \<Rightarrow> VARSERVER_HANDLE \<Rightarrow> VAR_HANDLE \<Rightarrow> nat \<Rightarrow> int \<times> VarObject"
  VAR_GetType :: "call list \<Rightarrow> VARSERVER_HANDLE \<Rightarrow> VAR_HANDLE \<Rightarrow> int \<times> VarType"
  VAR_SetStr :: "call list \<Rightarrow> VARSERVER_HANDLE \<Rightarrow> VAR_HANDLE \<Rightarrow> VarType \<Rightarrow> string \<Rightarrow> int"
  VAR_GetValidationRequest ::
    "call list \<Rightarrow> VARSERVER_HANDLE \<Rightarrow> 32 word \<Rightarrow> nat \<Rightarrow> int \<times> VAR_HANDLE \<times> VarObject"
  VAR_OpenPrintSession :: "call list \<Rightarrow> VARSERVER_HANDLE \<Rightarrow> 32 word \<Rightarrow> int \<times> VAR_HANDLE \<times> int"
  VAR_ClosePrintSession :: "call list \<Rightarrow> VARSERVER_HANDLE \<Rightarrow> 32 word \<Rightarrow> int \<Rightarrow> int"
  fdopen :: "call list \<Rightarrow> int \<Rightarrow> string \<Rightarrow> nat option"
  strerror :: "int \<Rightarrow> string"
  valid_signal :: "int \<Rightarrow> bool"
  sigwaitinfo :: "call list \<Rightarrow> int set \<Rightarrow> (int \<times> int) option"
  lua_number2str :: "lua_Number \<Rightarrow> string"
  lua_str2number :: "string \<Rightarrow> lua_Number option"
  int64_to_double :: "int \<Rightarrow> lua_Number"

subsection \<open>The state of the process\<close>

text \<open>
  \<open>stack\<close> is the Lua stack of the running call: the arguments at the bottom, index 1
  first, every pushed value appended. \<open>udata\<close> holds the userdata blocks that carry the
  metatable \<^verbatim>\<open>LUA_FILEHANDLE\<close>, by their address; \<open>next_udata\<close> is the next free
  address. \<open>hVarServer\<close> is the static variable of the source, \<open>trace\<close> the calls
  made so far.
\<close>

record world =
  stack :: "lua_value list"
  udata :: "nat \<rightharpoonup> userdata_block"
  next_udata :: nat
  hVarServer :: VARSERVER_HANDLE
  trace :: "call list"

type_synonym 'a outcome = "world \<times> (error + 'a)"

definition record_call :: "call \<Rightarrow> world \<Rightarrow> world" where
  "record_call c w = w\<lparr>trace := trace w @ [c]\<rparr>"

definition lua_push :: "lua_value \<Rightarrow> world \<Rightarrow> world" where
  "lua_push v w = w\<lparr>stack := stack w @ [v]\<rparr>"

definition lua_pushnil :: "world \<Rightarrow> world" where
  "lua_pushnil w = lua_push LuaNil w"

definition lua_pushnumber :: "lua_Number \<Rightarrow> world \<Rightarrow> world" where
  "lua_pushnumber n w = lua_push (LuaNumber n) w"

definition lua_pushstring :: "string \<Rightarrow> world \<Rightarrow> world" where
  "lua_pushstring s w = lua_push (LuaString s) w"

text \<open>The value at a positive stack index, \<open>None\<close> when the index is not on the stack.\<close>

definition lua_arg :: "world \<Rightarrow> nat \<Rightarrow> lua_value option" where
  "lua_arg w i = (if 1 \<le> i \<and> i \<le> length (stack w) then Some (stack w ! (i - 1)) else None)"

text \<open>
  A Lua string may hold zero bytes; the source passes the pointer that
  \<^verbatim>\<open>luaL_checklstring\<close> returns to functions that read a C string, which ends
  at the first zero byte.
\<close>

definition c_str :: "string \<Rightarrow> string" where
  "c_str s = takeWhile (\<lambda>c. c \<noteq> CHR 0x00) s"

text \<open>
  \<^verbatim>\<open>luaL_checklstring\<close> accepts a string or a number (which Lua converts to its
  text) and raises an error otherwise; \<^verbatim>\<open>luaL_checknumber\<close> accepts a number or a
  string that reads as a number.
\<close>

definition luaL_checklstring :: "extern \<Rightarrow> world \<Rightarrow> nat \<Rightarrow> error + string" where
  "luaL_checklstring X w i =
     (case lua_arg w i of
        Some (LuaString s) \<Rightarrow> Inr s
      | Some (LuaNumber n) \<Rightarrow> Inr (lua_number2str X n)
      | _ \<Rightarrow> Inl (LuaError ''string expected''))"

definition luaL_checknumber :: "extern \<Rightarrow> world \<Rightarrow> nat \<Rightarrow> error + lua_Number" where
  "luaL_checknumber X w i =
     (case lua_arg w i of
        Some (LuaNumber n) \<Rightarrow> Inr n
      | Some (LuaString s) \<Rightarrow>
          (case lua_str2number X s of
             Some n \<Rightarrow> Inr n
           | None \<Rightarrow> Inl (LuaError ''number expected''))
      | _ \<Rightarrow> Inl (LuaError ''number expected''))"

definition luaL_typename :: "world \<Rightarrow> nat \<Rightarrow> string" where
  "luaL_typename w i =
     (case lua_arg w i of
        None \<Rightarrow> ''no value''
      | Some LuaNil \<Rightarrow> ''nil''
      | Some (LuaBoolean b) \<Rightarrow> ''boolean''
      | Some (LuaNumber n) \<Rightarrow> ''number''
      | Some (LuaString s) \<Rightarrow> ''string''
      | Some LuaTable \<Rightarrow> ''table''
      | Some (LuaUserdata p) \<Rightarrow> ''userdata'')"

text \<open>
  \<^verbatim>\<open>luaL_checkudata(L, i, LUA_FILEHANDLE)\<close>: the block of a userdata with that
  metatable, an error for every other argument.
\<close>

definition luaL_checkudata :: "world \<Rightarrow> nat \<Rightarrow> error + (nat \<times> userdata_block)" where
  "luaL_checkudata w i =
     (case lua_arg w i of
        Some (LuaUserdata p) \<Rightarrow>
          (case udata w p of
             Some b \<Rightarrow> Inr (p, b)
           | None \<Rightarrow> Inl (LuaError ''FILE* expected''))
      | _ \<Rightarrow> Inl (LuaError ''FILE* expected''))"

text \<open>
  The conversion of a \<^verbatim>\<open>double\<close> to \<^verbatim>\<open>uint32_t\<close> drops the fraction; C leaves
  it undefined when the integral part is not a value of the type.
\<close>

definition c_trunc :: "real \<Rightarrow> int" where
  "c_trunc x = (if 0 \<le> x then \<lfloor>x\<rfloor> else \<lceil>x\<rceil>)"

definition double_to_uint32 :: "real \<Rightarrow> error + 32 word" where
  "double_to_uint32 x =
     (if 0 \<le> c_trunc x \<and> c_trunc x < 2 ^ 32 then Inr (word_of_int (c_trunc x))
      else Inl (UndefinedBehaviour ''double out of the range of uint32_t''))"

text \<open>
  The results of a call as Lua hands them to the caller: the topmost \<open>n\<close> values of
  the stack. A caller that asks for one value of a call with no result reads nil.
\<close>

definition lua_results :: "nat outcome \<Rightarrow> error + lua_value list" where
  "lua_results r =
     (case snd r of
        Inl e \<Rightarrow> Inl e
      | Inr n \<Rightarrow> Inr (drop (length (stack (fst r)) - n) (stack (fst r))))"

definition first_result :: "lua_value list \<Rightarrow> lua_value" where
  "first_result vs = (case vs of [] \<Rightarrow> LuaNil | v # _ \<Rightarrow> v)"

definition lua_result1 :: "nat outcome \<Rightarrow> error + lua_value" where
  "lua_result1 r = (case lua_results r of Inl e \<Rightarrow> Inl e | Inr vs \<Rightarrow> Inr (first_result vs))"

text \<open>
  A call from Lua: the function runs on a stack that holds the arguments, and the
  caller gets the results; the rest of the state carries over to the next call.
\<close>

definition lua_call ::
  "(world \<Rightarrow> nat outcome) \<Rightarrow> lua_value list \<Rightarrow> world \<Rightarrow> world \<times> (error + lua_value list)" where
  "lua_call f args w =
     (let r = f (w\<lparr>stack := args\<rparr>) in ((fst r)\<lparr>stack := stack w\<rparr>, lua_results r))"

text \<open>The calls a function added to the trace of the state it started in.\<close>

definition new_calls :: "world \<Rightarrow> world \<Rightarrow> call list" where
  "new_calls w w' = drop (length (trace w)) (trace w')"

text \<open>\<open>precedes a b cs\<close>: the call \<open>a\<close> occurs in \<open>cs\<close> before the first \<open>b\<close>.\<close>

definition precedes :: "call \<Rightarrow> call \<Rightarrow> call list \<Rightarrow> bool" where
  "precedes a b cs = (b \<in> set cs \<and> a \<in> set (takeWhile (\<lambda>c. c \<noteq> b) cs))"

fun is_VAR_SetStr :: "call \<Rightarrow> bool" where
  "is_VAR_SetStr (Call_VAR_SetStr s h t v) = True"
| "is_VAR_SetStr _ = False"

subsection \<open>The session handle\<close>

text \<open>
  \<^verbatim>\<open>luaopen_libluavars\<close> opens the connection when the static handle is null and
  leaves the library table on the stack (the entries of the table and the global
  constants it sets are not part of the state modelled here).
\<close>

definition luaopen_libluavars :: "extern \<Rightarrow> world \<Rightarrow> nat outcome" where
  "luaopen_libluavars X w =
     (let w1 = (if hVarServer w = None
                then (record_call Call_VARSERVER_Open w)\<lparr>hVarServer := VARSERVER_Open X (trace w)\<rparr>
                else w)
      in (lua_push LuaTable w1, Inr 1))"

definition global_unload :: "world \<Rightarrow> nat outcome" where
  "global_unload w =
     (if hVarServer w \<noteq> None
      then (record_call (Call_VARSERVER_Close (hVarServer w)) w, Inr 0)
      else (w, Inr 0))"

subsection \<open>Variable access\<close>

definition var_get :: "extern \<Rightarrow> world \<Rightarrow> nat outcome" where
  "var_get X w =
     (case luaL_checklstring X w 1 of
        Inl e \<Rightarrow> (w, Inl e)
      | Inr name \<Rightarrow>
          (let h = VAR_FindByName X (trace w) (hVarServer w) (c_str name);
               w1 = record_call (Call_VAR_FindByName (hVarServer w) (c_str name)) w;
               (w3, result) =
                 (if h \<noteq> VAR_INVALID X then
                    (let (rc, var) = VAR_Get X (trace w1) (hVarServer w1) h (BUFSIZ X);
                         w2 = record_call (Call_VAR_Get (hVarServer w1) h (BUFSIZ X)) w1
                     in if rc = EOK X then
                          (case var_type var of
                             VARTYPE_STR \<Rightarrow> (lua_pushstring (val_str var) w2, 1)
                           | VARTYPE_UINT16 \<Rightarrow> (lua_pushnumber (real (unat (val_ui var))) w2, 1)
                           | VARTYPE_UINT32 \<Rightarrow> (lua_pushnumber (real (unat (val_ul var))) w2, 1)
                           | VARTYPE_FLOAT \<Rightarrow> (lua_pushnumber (val_f var) w2, 1)
                           | _ \<Rightarrow> (w2, 0))
                        else (w2, 0))
                  else (w1, 0))
           in if result = 0 then (lua_pushnil w3, Inr result) else (w3, Inr result)))"

definition var_find :: "extern \<Rightarrow> world \<Rightarrow> nat outcome" where
  "var_find X w =
     (case luaL_checklstring X w 1 of
        Inl e \<Rightarrow> (w, Inl e)
      | Inr name \<Rightarrow>
          (let h = VAR_FindByName X (trace w) (hVarServer w) (c_str name);
               w1 = record_call (Call_VAR_FindByName (hVarServer w) (c_str name)) w;
               (w2, result) =
                 (if h \<noteq> VAR_INVALID X then (lua_pushnumber (real (unat h)) w1, 1)
                  else (w1, 0))
           in if result = 0 then (lua_pushnil w2, Inr result) else (w2, Inr result)))"

text \<open>
  \<open>var_set\<close> first resolves its first argument to a handle: by name when the argument
  is a string, by conversion when it is a number, and to \<^verbatim>\<open>VAR_INVALID\<close> (the
  initial value of the local variable) for every other argument.
\<close>

definition var_set_handle :: "extern \<Rightarrow> world \<Rightarrow> VAR_HANDLE outcome" where
  "var_set_handle X w =
     (let argtype = luaL_typename w 1 in
      if argtype = ''string'' then
        (case luaL_checklstring X w 1 of
           Inl e \<Rightarrow> (w, Inl e)
         | Inr name \<Rightarrow>
             (record_call (Call_VAR_FindByName (hVarServer w) (c_str name)) w,
              Inr (VAR_FindByName X (trace w) (hVarServer w) (c_str name))))
      else if argtype = ''number'' then
        (case luaL_checknumber X w 1 of
           Inl e \<Rightarrow> (w, Inl e)
         | Inr n \<Rightarrow>
             (case double_to_uint32 n of
                Inl e \<Rightarrow> (w, Inl e)
              | Inr h \<Rightarrow> (w, Inr h)))
      else (w, Inr (VAR_INVALID X)))"

definition var_set :: "extern \<Rightarrow> world \<Rightarrow> nat outcome" where
  "var_set X w =
     (case var_set_handle X w of
        (w1, Inl e) \<Rightarrow> (w1, Inl e)
      | (w1, Inr h) \<Rightarrow>
          (case luaL_checklstring X w1 2 of
             Inl e \<Rightarrow> (w1, Inl e)
           | Inr val \<Rightarrow>
               if h \<noteq> VAR_INVALID X then
                 (let (rc, vtype) = VAR_GetType X (trace w1) (hVarServer w1) h;
                      w2 = record_call (Call_VAR_GetType (hVarServer w1) h) w1
                  in if rc = EOK X then
                       (let rc2 = VAR_SetStr X (trace w2) (hVarServer w2) h vtype (c_str val);
                            w3 = record_call
                                   (Call_VAR_SetStr (hVarServer w2) h vtype (c_str val)) w2
                        in if rc2 = EOK X then (lua_pushnumber 1 w3, Inr 1)
                           else (lua_pushnil w3, Inr 0))
                     else (w2, Inr 0))
               else (lua_pushnil w1, Inr 0)))"

subsection \<open>Events and validation\<close>

text \<open>
  \<^verbatim>\<open>sigaddset\<close> adds a signal number to a set and leaves the set as it is when
  the number is not a signal of the platform; the source ignores what it returns.
\<close>

definition sigaddset :: "extern \<Rightarrow> int set \<Rightarrow> int \<Rightarrow> int set" where
  "sigaddset X sigset n = (if valid_signal X n then insert n sigset else sigset)"

text \<open>The signal set that \<open>var_wait\<close> builds in its local variable \<^verbatim>\<open>mask\<close>.\<close>

definition var_wait_sigmask :: "extern \<Rightarrow> int set" where
  "var_wait_sigmask X =
     (let sigset0 = {};
          sigset1 = sigaddset X sigset0 (SIGRTMIN X + 5);
          sigset2 = sigaddset X sigset1 (SIG_VAR_MODIFIED X);
          sigset3 = sigaddset X sigset2 (SIG_VAR_CALC X);
          sigset4 = sigaddset X sigset3 (SIG_VAR_PRINT X)
      in sigaddset X sigset4 (SIG_VAR_VALIDATE X))"

definition var_wait :: "extern \<Rightarrow> world \<Rightarrow> nat outcome" where
  "var_wait X w =
     (let sigmask = var_wait_sigmask X;
          w1 = record_call (Call_sigprocmask_BLOCK sigmask) w;
          w2 = record_call (Call_sigwaitinfo sigmask) w1
      in case sigwaitinfo X (trace w1) sigmask of
           None \<Rightarrow> (w2, Inl BlocksForever)
         | Some (sig, sival_int) \<Rightarrow>
             (lua_pushnumber (real_of_int sival_int) (lua_pushnumber (real_of_int sig) w2),
              Inr 2))"

definition var_validate_start :: "extern \<Rightarrow> world \<Rightarrow> nat outcome" where
  "var_validate_start X w =
     (case luaL_checknumber X w 1 of
        Inl e \<Rightarrow> (w, Inl e)
      | Inr n \<Rightarrow>
          (case double_to_uint32 n of
             Inl e \<Rightarrow> (w, Inl e)
           | Inr tid \<Rightarrow>
               (let (rc, h, var) =
                      VAR_GetValidationRequest X (trace w) (hVarServer w) tid (BUFSIZ X);
                    w1 = record_call
                           (Call_VAR_GetValidationRequest (hVarServer w) tid (BUFSIZ X)) w
                in if rc = EOK X then
                     (let w2 = lua_pushnumber (real (unat h)) w1 in
                      case var_type var of
                        VARTYPE_STR \<Rightarrow> (lua_pushstring (val_str var) w2, Inr 2)
                      | VARTYPE_INT16 \<Rightarrow>
                          (lua_pushnumber (real_of_int (sint (val_i var))) w2, Inr 2)
                      | VARTYPE_UINT16 \<Rightarrow>
                          (lua_pushnumber (real (unat (val_ui var))) w2, Inr 2)
                      | VARTYPE_INT32 \<Rightarrow>
                          (lua_pushnumber (real_of_int (sint (val_l var))) w2, Inr 2)
                      | VARTYPE_UINT32 \<Rightarrow>
                          (lua_pushnumber (real (unat (val_ul var))) w2, Inr 2)
                      | VARTYPE_INT64 \<Rightarrow>
                          (lua_pushnumber (int64_to_double X (sint (val_ll var))) w2, Inr 2)
                      | VARTYPE_UINT64 \<Rightarrow>
                          (lua_pushnumber (int64_to_double X (uint (val_ull var))) w2, Inr 2)
                      | VARTYPE_FLOAT \<Rightarrow> (lua_pushnumber (val_f var) w2, Inr 2)
                      | VARTYPE_OTHER k \<Rightarrow> (w2, Inr 0))
                   else (w1, Inr 0))))"

subsection \<open>Print sessions\<close>

text \<open>
  \<^verbatim>\<open>lua_newuserdata\<close> takes the next free block and pushes the userdata on the
  stack; \<open>var_open_print_session\<close> then fills every field of the block.
\<close>

definition var_open_print_session :: "extern \<Rightarrow> world \<Rightarrow> nat outcome" where
  "var_open_print_session X w =
     (case luaL_checknumber X w 1 of
        Inl e \<Rightarrow> (w, Inl e)
      | Inr n \<Rightarrow>
          (case double_to_uint32 n of
             Inl e \<Rightarrow> (w, Inl e)
           | Inr sid \<Rightarrow>
               (let (rc, h, fd) = VAR_OpenPrintSession X (trace w) (hVarServer w) sid;
                    w1 = record_call (Call_VAR_OpenPrintSession (hVarServer w) sid) w
                in if rc = EOK X then
                     (let p = next_udata w1;
                          w2 = lua_push (LuaUserdata p) (w1\<lparr>next_udata := Suc p\<rparr>);
                          fp = fdopen X (trace w2) fd ''w'';
                          w3 = record_call (Call_fdopen fd ''w'') w2;
                          w4 = w3\<lparr>udata := (udata w3)
                                 (p \<mapsto> UD_PrintSession
                                        \<lparr>stream_f = fp, stream_closef = True,
                                         session_fd = fd, session_id = sid,
                                         session_hVar = h\<rparr>)\<rparr>
                      in (lua_pushnumber (real (unat h)) w4, Inr 2))
                   else (lua_pushnil w1, Inr 1))))"

text \<open>The block after \<^verbatim>\<open>memset(pLuaPrintSession, 0, sizeof(LuaPrintSession))\<close>.\<close>

definition cleared_session :: LuaPrintSession where
  "cleared_session =
     \<lparr>stream_f = None, stream_closef = False, session_fd = 0, session_id = 0,
      session_hVar = 0\<rparr>"

text \<open>
  \<open>var_close_print_session\<close> reads the block of its argument as a
  \<^verbatim>\<open>LuaPrintSession\<close>. For a file of Lua's io library the fields \<^verbatim>\<open>id\<close> and
  \<^verbatim>\<open>fd\<close> lie beyond the block, and \<^verbatim>\<open>fclose\<close> of a null pointer is
  undefined in C: the call ends there, in the second case after the request to the
  server.
\<close>

definition var_close_print_session :: "extern \<Rightarrow> world \<Rightarrow> nat outcome" where
  "var_close_print_session X w =
     (case luaL_checkudata w 1 of
        Inl e \<Rightarrow> (w, Inl e)
      | Inr (p, UD_Stream f c) \<Rightarrow>
          (w, Inl (UndefinedBehaviour ''LuaPrintSession read from a luaL_Stream''))
      | Inr (p, UD_PrintSession s) \<Rightarrow>
          (let result = VAR_ClosePrintSession X (trace w) (hVarServer w)
                          (session_id s) (session_fd s);
               w1 = record_call
                      (Call_VAR_ClosePrintSession (hVarServer w) (session_id s) (session_fd s)) w
           in case stream_f s of
                None \<Rightarrow> (w1, Inl (UndefinedBehaviour ''fclose(NULL)''))
              | Some fp \<Rightarrow>
                  (let w2 = record_call (Call_fclose fp) w1;
                       w3 = w2\<lparr>udata := (udata w2)(p \<mapsto> UD_PrintSession cleared_session)\<rparr>
                   in if result = EOK X then (lua_pushnumber 1 w3, Inr 1)
                      else (lua_pushstring (strerror X result) (lua_pushnil w3), Inr 2))))"

subsection \<open>A concrete server\<close>

text \<open>
  One variable server to evaluate the functions on: it knows the variable
  \<^verbatim>\<open>temperature\<close>, handle 1, an unsigned 16-bit number of value 21; the validation
  request 7 for it carries the string \<^verbatim>\<open>30\<close>; the print request 42 asks for it on
  descriptor 5. Every other name, handle and request is answered with an error code.
\<close>

definition demo_var :: VarObject where
  "demo_var =
     \<lparr>var_type = VARTYPE_UINT16, var_len = 0, val_str = [], val_i = 0, val_ui = 21,
      val_l = 0, val_ul = 0, val_ll = 0, val_ull = 0, val_f = 0\<rparr>"

definition demo_extern :: extern where
  "demo_extern =
     \<lparr>EOK = 0, VAR_INVALID = 0, BUFSIZ = 8192, SIGRTMIN = 34,
      SIG_VAR_MODIFIED = 40, SIG_VAR_CALC = 41, SIG_VAR_VALIDATE = 42, SIG_VAR_PRINT = 43,
      VARSERVER_Open = (\<lambda>cs. Some 1),
      VAR_FindByName = (\<lambda>cs s name. if name = ''temperature'' then 1 else 0),
      VAR_Get = (\<lambda>cs s h n. if h = 1 then (0, demo_var) else (2, demo_var)),
      VAR_GetType = (\<lambda>cs s h. if h = 1 then (0, VARTYPE_UINT16) else (2, VARTYPE_OTHER 0)),
      VAR_SetStr = (\<lambda>cs s h t v. if h = 1 then 0 else 2),
      VAR_GetValidationRequest =
        (\<lambda>cs s tid n.
           if tid = 7 then (0, 1, demo_var\<lparr>var_type := VARTYPE_STR, val_str := ''30''\<rparr>)
           else (2, 0, demo_var)),
      VAR_OpenPrintSession = (\<lambda>cs s sid. if sid = 42 then (0, 1, 5) else (2, 0, - 1)),
      VAR_ClosePrintSession = (\<lambda>cs s sid fd. if sid = 42 \<and> fd = 5 then 0 else 9),
      fdopen = (\<lambda>cs fd mode. Some 1000),
      strerror = (\<lambda>e. if e = 9 then ''Bad file descriptor'' else ''Unknown error''),
      valid_signal = (\<lambda>n. 1 \<le> n \<and> n \<le> 64),
      sigwaitinfo = (\<lambda>cs S. Some (42, 7)),
      lua_number2str = (\<lambda>n. if n = 1 then ''1.0'' else ''?''),
      lua_str2number = (\<lambda>s. None),
      int64_to_double = real_of_int\<rparr>"

text \<open>The process after the library was loaded and before any other call.\<close>

definition demo_world :: world where
  "demo_world =
     \<lparr>stack = [], udata = Map.empty, next_udata = 0, hVarServer = Some 1, trace = []\<rparr>"

text \<open>The same server when the wait for a signal fails.\<close>

definition demo_failed_wait :: extern where
  "demo_failed_wait = demo_extern\<lparr>sigwaitinfo := (\<lambda>cs S. Some (- 1, 12345))\<rparr>"

text \<open>The same server when it refuses to close a print session.\<close>

definition demo_failed_close :: extern where
  "demo_failed_close = demo_extern\<lparr>VAR_ClosePrintSession := (\<lambda>cs s sid fd. 9)\<rparr>"

text \<open>A server whose variable is a signed 32-bit number.\<close>

definition demo_int32_server :: extern where
  "demo_int32_server =
     demo_extern
       \<lparr>VAR_Get := (\<lambda>cs s h n. (0, demo_var\<lparr>var_type := VARTYPE_INT32, val_l := 21\<rparr>)),
        VAR_GetValidationRequest :=
          (\<lambda>cs s tid n. (0, 1, demo_var\<lparr>var_type := VARTYPE_INT32, val_l := 30\<rparr>))\<rparr>"

text \<open>
  The process after \<open>var_open_print_session\<close> was called with the request 42 (see
  \<open>demo_open_print_session\<close> below), the session object at the bottom of the stack.
\<close>

definition demo_session_world :: world where
  "demo_session_world =
     \<lparr>stack = [LuaUserdata 0],
      udata = [0 \<mapsto> UD_PrintSession
                      \<lparr>stream_f = Some 1000, stream_closef = True, session_fd = 5,
                       session_id = 42, session_hVar = 1\<rparr>],
      next_udata = 1, hVarServer = Some 1,
      trace = [Call_VAR_OpenPrintSession (Some 1) 42, Call_fdopen 5 ''w'']\<rparr>"

text \<open>
  The process after the library was loaded and then unloaded (see
  \<open>demo_load_unload\<close> below).
\<close>

definition demo_unloaded_world :: world where
  "demo_unloaded_world =
     \<lparr>stack = [], udata = Map.empty, next_udata = 0, hVarServer = Some 1,
      trace = [Call_VARSERVER_Open, Call_VARSERVER_Close (Some 1)]\<rparr>"

section \<open>Properties\<close>

lemmas lua_defs =
  record_call_def lua_push_def lua_pushnil_def lua_pushnumber_def lua_pushstring_def
  lua_arg_def luaL_checklstring_def luaL_checknumber_def luaL_typename_def
  luaL_checkudata_def lua_results_def lua_result1_def first_result_def new_calls_def

subsection \<open>Waiting for an event\<close>

lemma var_wait_sigmask_valid:
  assumes "valid_signal X (SIGRTMIN X + 5)" "valid_signal X (SIG_VAR_MODIFIED X)"
    "valid_signal X (SIG_VAR_CALC X)" "valid_signal X (SIG_VAR_VALIDATE X)"
    "valid_signal X (SIG_VAR_PRINT X)"
  shows "var_wait_sigmask X =
     {SIG_VAR_MODIFIED X, SIG_VAR_CALC X, SIG_VAR_VALIDATE X, SIG_VAR_PRINT X, SIGRTMIN X + 5}"
  using assms by (auto simp add: var_wait_sigmask_def sigaddset_def Let_def)

lemma var_wait_calls:
  "new_calls w (fst (var_wait X w)) =
     [Call_sigprocmask_BLOCK (var_wait_sigmask X), Call_sigwaitinfo (var_wait_sigmask X)]"
  by (simp add: var_wait_def lua_defs Let_def split: option.split prod.split)

lemma var_wait_blocks:
  "sigwaitinfo X (trace w @ [Call_sigprocmask_BLOCK (var_wait_sigmask X)])
     (var_wait_sigmask X) = None
   \<Longrightarrow> snd (var_wait X w) = Inl BlocksForever"
  by (simp add: var_wait_def lua_defs Let_def)

lemma var_wait_delivers:
  "sigwaitinfo X (trace w @ [Call_sigprocmask_BLOCK (var_wait_sigmask X)])
     (var_wait_sigmask X) = Some (sig, tid)
   \<Longrightarrow> lua_results (var_wait X w) =
         Inr [LuaNumber (real_of_int sig), LuaNumber (real_of_int tid)]"
  by (simp add: var_wait_def lua_defs Let_def)

text \<open>
  Claim C8. Every call of \<open>var_wait\<close> waits on the same signal set, whatever its
  arguments, the state and the calls made before: provided the five numbers are signals
  of the platform, the set holds the four event signals (modified, calc, validate,
  print) and the timer signal \<^verbatim>\<open>SIGRTMIN+5\<close>, and nothing else. The call blocks these
  signals and then waits with \<^verbatim>\<open>sigwaitinfo\<close>, which takes no timeout: when no signal
  of the set is delivered the call does not return. When a signal is delivered the call
  returns two results, the signal number and the integer payload of the signal (the
  transaction identifier).
\<close>

theorem var_wait_fixed_signal_set:
  assumes "valid_signal X (SIGRTMIN X + 5)" "valid_signal X (SIG_VAR_MODIFIED X)"
    "valid_signal X (SIG_VAR_CALC X)" "valid_signal X (SIG_VAR_VALIDATE X)"
    "valid_signal X (SIG_VAR_PRINT X)"
  shows "(let S = {SIG_VAR_MODIFIED X, SIG_VAR_CALC X, SIG_VAR_VALIDATE X, SIG_VAR_PRINT X,
                   SIGRTMIN X + 5}
          in new_calls w (fst (var_wait X w)) = [Call_sigprocmask_BLOCK S, Call_sigwaitinfo S]
             \<and> (sigwaitinfo X (trace w @ [Call_sigprocmask_BLOCK S]) S = None
                  \<longrightarrow> snd (var_wait X w) = Inl BlocksForever)
             \<and> (\<forall>sig tid.
                   sigwaitinfo X (trace w @ [Call_sigprocmask_BLOCK S]) S = Some (sig, tid)
                   \<longrightarrow> lua_results (var_wait X w) =
                         Inr [LuaNumber (real_of_int sig), LuaNumber (real_of_int tid)]))"
  unfolding Let_def var_wait_sigmask_valid [OF assms, symmetric]
  using var_wait_calls var_wait_blocks var_wait_delivers by blast

theorem var_wait_fixed_signal_set_witness:
  "valid_signal demo_extern (SIGRTMIN demo_extern + 5)
   \<and> valid_signal demo_extern (SIG_VAR_MODIFIED demo_extern)
   \<and> valid_signal demo_extern (SIG_VAR_CALC demo_extern)
   \<and> valid_signal demo_extern (SIG_VAR_VALIDATE demo_extern)
   \<and> valid_signal demo_extern (SIG_VAR_PRINT demo_extern)
   \<and> new_calls demo_world (fst (var_wait demo_extern demo_world)) =
       [Call_sigprocmask_BLOCK {40, 41, 42, 43, 39}, Call_sigwaitinfo {40, 41, 42, 43, 39}]
   \<and> sigwaitinfo demo_extern (trace demo_world @ [Call_sigprocmask_BLOCK {40, 41, 42, 43, 39}])
        {40, 41, 42, 43, 39} = Some (42, 7)
   \<and> lua_results (var_wait demo_extern demo_world) = Inr [LuaNumber 42, LuaNumber 7]"
  using var_wait_fixed_signal_set [of demo_extern demo_world]
  by (simp add: demo_extern_def Let_def)

text \<open>
  Claim C10. Whenever the wait for a signal returns, \<open>var_wait\<close> returns exactly two
  numbers and never nil: the return value of \<^verbatim>\<open>sigwaitinfo\<close> and the payload field.
  This includes the failed wait, whose return value is \<open>-1\<close>: the caller gets \<open>-1\<close>
  and a payload, not an error result.
\<close>

theorem var_wait_two_numbers:
  assumes "sigwaitinfo X (trace w @ [Call_sigprocmask_BLOCK (var_wait_sigmask X)])
             (var_wait_sigmask X) = Some (sig, payload)"
  shows "lua_results (var_wait X w) =
           Inr [LuaNumber (real_of_int sig), LuaNumber (real_of_int payload)]"
  using assms by (simp add: var_wait_def lua_defs Let_def)

theorem var_wait_two_numbers_witness:
  "sigwaitinfo demo_failed_wait
     (trace demo_world @ [Call_sigprocmask_BLOCK (var_wait_sigmask demo_failed_wait)])
     (var_wait_sigmask demo_failed_wait) = Some (- 1, 12345)
   \<and> lua_results (var_wait demo_failed_wait demo_world) =
       Inr [LuaNumber (- 1), LuaNumber 12345]"
  using var_wait_two_numbers [of demo_failed_wait demo_world "- 1" 12345]
  by (simp add: demo_failed_wait_def demo_extern_def)

subsection \<open>Starting a validation\<close>

text \<open>
  Claim C3. The server tells \<open>var_validate_start\<close> that a transaction is not pending
  by a status other than \<^verbatim>\<open>EOK\<close>. For every transaction identifier with such an
  answer the call makes that one request to the client library, does not wait for a
  signal, pushes nothing and returns no result: the caller reads the absent value, nil.
  (The request itself is taken to return, as every request to the client library is.)
\<close>

theorem var_validate_start_not_pending:
  assumes "luaL_checknumber X w 1 = Inr n" and "double_to_uint32 n = Inr tid"
    and "fst (VAR_GetValidationRequest X (trace w) (hVarServer w) tid (BUFSIZ X)) \<noteq> EOK X"
  shows "lua_results (var_validate_start X w) = Inr []
         \<and> lua_result1 (var_validate_start X w) = Inr LuaNil
         \<and> stack (fst (var_validate_start X w)) = stack w
         \<and> new_calls w (fst (var_validate_start X w)) =
             [Call_VAR_GetValidationRequest (hVarServer w) tid (BUFSIZ X)]"
proof -
  obtain rc h var where
    req: "VAR_GetValidationRequest X (trace w) (hVarServer w) tid (BUFSIZ X) = (rc, h, var)"
    by (cases "VAR_GetValidationRequest X (trace w) (hVarServer w) tid (BUFSIZ X)")
  with assms(3) have "rc \<noteq> EOK X" by simp
  with assms(1,2) req show ?thesis
    by (simp add: var_validate_start_def record_call_def lua_results_def lua_result1_def
        first_result_def new_calls_def)
qed

theorem var_validate_start_not_pending_witness:
  "luaL_checknumber demo_extern (demo_world\<lparr>stack := [LuaNumber 8]\<rparr>) 1 = Inr 8
   \<and> double_to_uint32 8 = Inr 8
   \<and> fst (VAR_GetValidationRequest demo_extern [] (Some 1) 8 8192) \<noteq> EOK demo_extern
   \<and> lua_results (var_validate_start demo_extern (demo_world\<lparr>stack := [LuaNumber 8]\<rparr>)) = Inr []
   \<and> lua_result1 (var_validate_start demo_extern (demo_world\<lparr>stack := [LuaNumber 8]\<rparr>)) =
       Inr LuaNil
   \<and> new_calls (demo_world\<lparr>stack := [LuaNumber 8]\<rparr>)
        (fst (var_validate_start demo_extern (demo_world\<lparr>stack := [LuaNumber 8]\<rparr>))) =
        [Call_VAR_GetValidationRequest (Some 1) 8 8192]"
  using var_validate_start_not_pending [of demo_extern "demo_world\<lparr>stack := [LuaNumber 8]\<rparr>" 8 8]
  by (simp add: demo_extern_def demo_world_def luaL_checknumber_def lua_arg_def
      double_to_uint32_def c_trunc_def)

subsection \<open>Reading a variable\<close>

text \<open>
  What \<open>var_get\<close> does for a name that the server resolves, in terms of the server's
  answer to the fetch.
\<close>

lemma var_get_fetched:
  assumes "lua_arg w 1 = Some (LuaString name)"
    and "VAR_FindByName X (trace w) (hVarServer w) (c_str name) = h" and "h \<noteq> VAR_INVALID X"
    and "VAR_Get X (trace w @ [Call_VAR_FindByName (hVarServer w) (c_str name)])
           (hVarServer w) h (BUFSIZ X) = (rc, var)"
  shows "var_get X w =
     (let w2 = record_call (Call_VAR_Get (hVarServer w) h (BUFSIZ X))
                 (record_call (Call_VAR_FindByName (hVarServer w) (c_str name)) w)
      in if rc = EOK X then
           (case var_type var of
              VARTYPE_STR \<Rightarrow> (lua_pushstring (val_str var) w2, Inr 1)
            | VARTYPE_UINT16 \<Rightarrow> (lua_pushnumber (real (unat (val_ui var))) w2, Inr 1)
            | VARTYPE_UINT32 \<Rightarrow> (lua_pushnumber (real (unat (val_ul var))) w2, Inr 1)
            | VARTYPE_FLOAT \<Rightarrow> (lua_pushnumber (val_f var) w2, Inr 1)
            | _ \<Rightarrow> (lua_pushnil w2, Inr 0))
         else (lua_pushnil w2, Inr 0))"
proof -
  have "luaL_checklstring X w 1 = Inr name"
    using assms(1) by (simp add: luaL_checklstring_def)
  then show ?thesis using assms(2-4)
    by (simp add: var_get_def record_call_def Let_def split: VarType.split)
qed

lemma var_get_number_as_name:
  "lua_results (var_get X (w\<lparr>stack := [LuaNumber n]\<rparr>)) =
   lua_results (var_get X (w\<lparr>stack := [LuaString (lua_number2str X n)]\<rparr>))"
  by (simp add: var_get_def lua_defs Let_def split: prod.split VarType.split)

lemma var_validate_start_fetched:
  assumes "luaL_checknumber X w 1 = Inr n" and "double_to_uint32 n = Inr tid"
    and "VAR_GetValidationRequest X (trace w) (hVarServer w) tid (BUFSIZ X) = (EOK X, h, var)"
  shows "lua_results (var_validate_start X w) =
     Inr (case var_type var of
            VARTYPE_STR \<Rightarrow> [LuaNumber (real (unat h)), LuaString (val_str var)]
          | VARTYPE_INT16 \<Rightarrow>
              [LuaNumber (real (unat h)), LuaNumber (real_of_int (sint (val_i var)))]
          | VARTYPE_UINT16 \<Rightarrow>
              [LuaNumber (real (unat h)), LuaNumber (real (unat (val_ui var)))]
          | VARTYPE_INT32 \<Rightarrow>
              [LuaNumber (real (unat h)), LuaNumber (real_of_int (sint (val_l var)))]
          | VARTYPE_UINT32 \<Rightarrow>
              [LuaNumber (real (unat h)), LuaNumber (real (unat (val_ul var)))]
          | VARTYPE_INT64 \<Rightarrow>
              [LuaNumber (real (unat h)), LuaNumber (int64_to_double X (sint (val_ll var)))]
          | VARTYPE_UINT64 \<Rightarrow>
              [LuaNumber (real (unat h)), LuaNumber (int64_to_double X (uint (val_ull var)))]
          | VARTYPE_FLOAT \<Rightarrow> [LuaNumber (real (unat h)), LuaNumber (val_f var)]
          | VARTYPE_OTHER k \<Rightarrow> [])"
  using assms
  by (simp add: var_validate_start_def lua_defs split: VarType.split)

text \<open>
  Claim C4, as the code has it. \<open>var_get\<close> takes a name only. For every name that the
  server resolves, \<open>var_get\<close> does the lookup that \<open>var_find\<close> does and asks the server
  for the value of exactly the handle that \<open>var_find\<close> returns; its result is that value
  when the kind is string, uint16, uint32 or float, and no result otherwise. Given the
  number that \<open>var_find\<close> returned, \<open>var_get\<close> reads it as text and looks that text up as
  a name.
\<close>

theorem var_get_fetches_found_handle:
  assumes "lua_arg w 1 = Some (LuaString name)"
    and "VAR_FindByName X (trace w) (hVarServer w) (c_str name) = h" and "h \<noteq> VAR_INVALID X"
    and "VAR_Get X (trace w @ [Call_VAR_FindByName (hVarServer w) (c_str name)])
           (hVarServer w) h (BUFSIZ X) = (rc, var)"
  shows "lua_results (var_find X w) = Inr [LuaNumber (real (unat h))]
       \<and> new_calls w (fst (var_get X w)) =
           [Call_VAR_FindByName (hVarServer w) (c_str name),
            Call_VAR_Get (hVarServer w) h (BUFSIZ X)]
       \<and> lua_results (var_get X w) =
           Inr (if rc = EOK X then
                  (case var_type var of
                     VARTYPE_STR \<Rightarrow> [LuaString (val_str var)]
                   | VARTYPE_UINT16 \<Rightarrow> [LuaNumber (real (unat (val_ui var)))]
                   | VARTYPE_UINT32 \<Rightarrow> [LuaNumber (real (unat (val_ul var)))]
                   | VARTYPE_FLOAT \<Rightarrow> [LuaNumber (val_f var)]
                   | _ \<Rightarrow> [])
                else [])
       \<and> lua_results (var_get X (w\<lparr>stack := [LuaNumber (real (unat h))]\<rparr>)) =
           lua_results (var_get X (w\<lparr>stack := [LuaString (lua_number2str X (real (unat h)))]\<rparr>))"
proof -
  note get = var_get_fetched [OF assms]
  have name: "luaL_checklstring X w 1 = Inr name"
    using assms(1) by (simp add: luaL_checklstring_def)
  have "lua_results (var_find X w) = Inr [LuaNumber (real (unat h))]"
    using name assms(2,3) by (simp add: var_find_def lua_defs Let_def)
  moreover have "new_calls w (fst (var_get X w)) =
           [Call_VAR_FindByName (hVarServer w) (c_str name),
            Call_VAR_Get (hVarServer w) h (BUFSIZ X)]"
    by (simp add: get lua_defs Let_def split: VarType.split)
  moreover have "lua_results (var_get X w) =
           Inr (if rc = EOK X then
                  (case var_type var of
                     VARTYPE_STR \<Rightarrow> [LuaString (val_str var)]
                   | VARTYPE_UINT16 \<Rightarrow> [LuaNumber (real (unat (val_ui var)))]
                   | VARTYPE_UINT32 \<Rightarrow> [LuaNumber (real (unat (val_ul var)))]
                   | VARTYPE_FLOAT \<Rightarrow> [LuaNumber (val_f var)]
                   | _ \<Rightarrow> [])
                else [])"
    by (simp add: get lua_defs Let_def split: VarType.split)
  ultimately show ?thesis
    using var_get_number_as_name by blast
qed

theorem var_get_fetches_found_handle_witness:
  "lua_arg (demo_world\<lparr>stack := [LuaString ''temperature'']\<rparr>) 1 =
     Some (LuaString ''temperature'')
   \<and> VAR_FindByName demo_extern [] (Some 1) (c_str ''temperature'') = 1
   \<and> 1 \<noteq> VAR_INVALID demo_extern
   \<and> VAR_Get demo_extern [Call_VAR_FindByName (Some 1) (c_str ''temperature'')]
        (Some 1) 1 (BUFSIZ demo_extern) = (0, demo_var)
   \<and> lua_results (var_find demo_extern (demo_world\<lparr>stack := [LuaString ''temperature'']\<rparr>)) =
       Inr [LuaNumber 1]
   \<and> new_calls (demo_world\<lparr>stack := [LuaString ''temperature'']\<rparr>)
        (fst (var_get demo_extern (demo_world\<lparr>stack := [LuaString ''temperature'']\<rparr>))) =
       [Call_VAR_FindByName (Some 1) ''temperature'', Call_VAR_Get (Some 1) 1 8192]
   \<and> lua_results (var_get demo_extern (demo_world\<lparr>stack := [LuaString ''temperature'']\<rparr>)) =
       Inr [LuaNumber 21]
   \<and> lua_results (var_get demo_extern (demo_world\<lparr>stack := [LuaNumber 1]\<rparr>)) =
       lua_results (var_get demo_extern (demo_world\<lparr>stack := [LuaString ''1.0'']\<rparr>))"
proof -
  let ?w = "demo_world\<lparr>stack := [LuaString ''temperature'']\<rparr>"
  have a: "lua_arg ?w 1 = Some (LuaString ''temperature'')"
    by (simp add: lua_arg_def)
  have f: "VAR_FindByName demo_extern (trace ?w) (hVarServer ?w) (c_str ''temperature'') = 1"
    by (simp add: demo_extern_def c_str_def)
  have i: "1 \<noteq> VAR_INVALID demo_extern"
    by (simp add: demo_extern_def)
  have g: "VAR_Get demo_extern
             (trace ?w @ [Call_VAR_FindByName (hVarServer ?w) (c_str ''temperature'')])
             (hVarServer ?w) 1 (BUFSIZ demo_extern) = (0, demo_var)"
    by (simp add: demo_extern_def)
  have t: "trace ?w = []" "hVarServer ?w = Some 1" "c_str ''temperature'' = ''temperature''"
    "EOK demo_extern = 0" "BUFSIZ demo_extern = 8192" "var_type demo_var = VARTYPE_UINT16"
    "val_ui demo_var = 21" "lua_number2str demo_extern 1 = ''1.0''"
    by (simp_all add: demo_world_def demo_extern_def demo_var_def c_str_def)
  from var_get_fetches_found_handle [OF a f i g] t a f i g show ?thesis
    by simp
qed

text \<open>
  Claim C4 as the specification states it fails: on the concrete server
  \<open>var_find\<close> returns the handle 1 for \<^verbatim>\<open>temperature\<close>, \<open>var_get\<close> called with that
  handle returns no value (it looks for a variable named \<^verbatim>\<open>1.0\<close>), and \<open>var_get\<close>
  called with the name returns 21.
\<close>

theorem var_find_then_get_counterexample:
  "snd (lua_call (var_find demo_extern) [LuaString ''temperature''] demo_world) =
     Inr [LuaNumber 1]
   \<and> snd (lua_call (var_get demo_extern) [LuaNumber 1]
          (fst (lua_call (var_find demo_extern) [LuaString ''temperature''] demo_world))) =
     Inr []
   \<and> snd (lua_call (var_get demo_extern) [LuaString ''temperature''] demo_world) =
     Inr [LuaNumber 21]
   \<and> snd (lua_call (var_get demo_extern) [LuaNumber 1]
          (fst (lua_call (var_find demo_extern) [LuaString ''temperature''] demo_world))) \<noteq>
     snd (lua_call (var_get demo_extern) [LuaString ''temperature''] demo_world)"
  by (simp add: lua_call_def var_find_def var_get_def demo_extern_def demo_world_def
      demo_var_def lua_defs c_str_def)

text \<open>
  Claim C9. After a successful fetch \<open>var_get\<close> returns a value exactly for the kinds
  string, uint16, uint32 and float. For int16, int32, int64 and uint64 it pushes nil
  and returns no result, so the caller reads nil, as it does for every kind outside
  the four. \<open>var_validate_start\<close> returns the handle and the value of the request for
  each of the eight kinds, read from the view of the union that belongs to the kind:
  the string, the signed or unsigned 16-bit, 32-bit or 64-bit number, or the float.
\<close>

theorem var_get_supported_kinds:
  assumes "lua_arg w 1 = Some (LuaString name)"
    and "VAR_FindByName X (trace w) (hVarServer w) (c_str name) = h" and "h \<noteq> VAR_INVALID X"
    and "VAR_Get X (trace w @ [Call_VAR_FindByName (hVarServer w) (c_str name)])
           (hVarServer w) h (BUFSIZ X) = (EOK X, var)"
  shows "(var_type var = VARTYPE_STR \<longrightarrow>
            lua_results (var_get X w) = Inr [LuaString (val_str var)])
       \<and> (var_type var = VARTYPE_UINT16 \<longrightarrow>
            lua_results (var_get X w) = Inr [LuaNumber (real (unat (val_ui var)))])
       \<and> (var_type var = VARTYPE_UINT32 \<longrightarrow>
            lua_results (var_get X w) = Inr [LuaNumber (real (unat (val_ul var)))])
       \<and> (var_type var = VARTYPE_FLOAT \<longrightarrow>
            lua_results (var_get X w) = Inr [LuaNumber (val_f var)])
       \<and> (var_type var \<in> {VARTYPE_INT16, VARTYPE_INT32, VARTYPE_INT64, VARTYPE_UINT64} \<longrightarrow>
            lua_results (var_get X w) = Inr []
            \<and> lua_result1 (var_get X w) = Inr LuaNil
            \<and> stack (fst (var_get X w)) = stack w @ [LuaNil])
       \<and> (var_type var \<notin> {VARTYPE_STR, VARTYPE_UINT16, VARTYPE_UINT32, VARTYPE_FLOAT} \<longrightarrow>
            lua_result1 (var_get X w) = Inr LuaNil)
       \<and> (\<forall>w' n tid h' var'.
            luaL_checknumber X w' 1 = Inr n \<longrightarrow> double_to_uint32 n = Inr tid \<longrightarrow>
            VAR_GetValidationRequest X (trace w') (hVarServer w') tid (BUFSIZ X) =
              (EOK X, h', var') \<longrightarrow>
            lua_results (var_validate_start X w') =
              Inr (case var_type var' of
                     VARTYPE_STR \<Rightarrow> [LuaNumber (real (unat h')), LuaString (val_str var')]
                   | VARTYPE_INT16 \<Rightarrow>
                       [LuaNumber (real (unat h')), LuaNumber (real_of_int (sint (val_i var')))]
                   | VARTYPE_UINT16 \<Rightarrow>
                       [LuaNumber (real (unat h')), LuaNumber (real (unat (val_ui var')))]
                   | VARTYPE_INT32 \<Rightarrow>
                       [LuaNumber (real (unat h')), LuaNumber (real_of_int (sint (val_l var')))]
                   | VARTYPE_UINT32 \<Rightarrow>
                       [LuaNumber (real (unat h')), LuaNumber (real (unat (val_ul var')))]
                   | VARTYPE_INT64 \<Rightarrow>
                       [LuaNumber (real (unat h')),
                        LuaNumber (int64_to_double X (sint (val_ll var')))]
                   | VARTYPE_UINT64 \<Rightarrow>
                       [LuaNumber (real (unat h')),
                        LuaNumber (int64_to_double X (uint (val_ull var')))]
                   | VARTYPE_FLOAT \<Rightarrow> [LuaNumber (real (unat h')), LuaNumber (val_f var')]
                   | VARTYPE_OTHER k \<Rightarrow> []))"
proof -
  note get = var_get_fetched [OF assms]
  have "var_type var = VARTYPE_STR \<longrightarrow>
          lua_results (var_get X w) = Inr [LuaString (val_str var)]"
    by (simp add: get lua_defs)
  moreover have "var_type var = VARTYPE_UINT16 \<longrightarrow>
          lua_results (var_get X w) = Inr [LuaNumber (real (unat (val_ui var)))]"
    by (simp add: get lua_defs)
  moreover have "var_type var = VARTYPE_UINT32 \<longrightarrow>
          lua_results (var_get X w) = Inr [LuaNumber (real (unat (val_ul var)))]"
    by (simp add: get lua_defs)
  moreover have "var_type var = VARTYPE_FLOAT \<longrightarrow>
          lua_results (var_get X w) = Inr [LuaNumber (val_f var)]"
    by (simp add: get lua_defs)
  moreover have
    "var_type var \<in> {VARTYPE_INT16, VARTYPE_INT32, VARTYPE_INT64, VARTYPE_UINT64} \<longrightarrow>
       lua_results (var_get X w) = Inr []
       \<and> lua_result1 (var_get X w) = Inr LuaNil
       \<and> stack (fst (var_get X w)) = stack w @ [LuaNil]"
    by (auto simp add: get lua_defs)
  moreover have
    "var_type var \<notin> {VARTYPE_STR, VARTYPE_UINT16, VARTYPE_UINT32, VARTYPE_FLOAT} \<longrightarrow>
       lua_result1 (var_get X w) = Inr LuaNil"
    by (cases "var_type var") (simp_all add: get lua_defs)
  ultimately show ?thesis
    using var_validate_start_fetched [of X] by blast
qed

theorem var_get_supported_kinds_witness:
  "lua_arg (demo_world\<lparr>stack := [LuaString ''temperature'']\<rparr>) 1 =
     Some (LuaString ''temperature'')
   \<and> VAR_FindByName demo_int32_server [] (Some 1) (c_str ''temperature'') = 1
   \<and> 1 \<noteq> VAR_INVALID demo_int32_server
   \<and> VAR_Get demo_int32_server [Call_VAR_FindByName (Some 1) (c_str ''temperature'')]
        (Some 1) 1 (BUFSIZ demo_int32_server) =
       (EOK demo_int32_server, demo_var\<lparr>var_type := VARTYPE_INT32, val_l := 21\<rparr>)
   \<and> lua_results (var_get demo_int32_server (demo_world\<lparr>stack := [LuaString ''temperature'']\<rparr>)) =
       Inr []
   \<and> stack (fst (var_get demo_int32_server (demo_world\<lparr>stack := [LuaString ''temperature'']\<rparr>))) =
       [LuaString ''temperature'', LuaNil]
   \<and> VAR_GetValidationRequest demo_int32_server [] (Some 1) 7 8192 =
       (EOK demo_int32_server, 1, demo_var\<lparr>var_type := VARTYPE_INT32, val_l := 30\<rparr>)
   \<and> lua_results (var_validate_start demo_int32_server (demo_world\<lparr>stack := [LuaNumber 7]\<rparr>)) =
       Inr [LuaNumber 1, LuaNumber 30]
   \<and> VAR_GetValidationRequest demo_extern [] (Some 1) 7 8192 =
       (EOK demo_extern, 1, demo_var\<lparr>var_type := VARTYPE_STR, val_str := ''30''\<rparr>)
   \<and> lua_results (var_validate_start demo_extern (demo_world\<lparr>stack := [LuaNumber 7]\<rparr>)) =
       Inr [LuaNumber 1, LuaString ''30'']"
proof -
  let ?w = "demo_world\<lparr>stack := [LuaString ''temperature'']\<rparr>"
  let ?var = "demo_var\<lparr>var_type := VARTYPE_INT32, val_l := 21\<rparr>"
  have a: "lua_arg ?w 1 = Some (LuaString ''temperature'')"
    by (simp add: lua_arg_def)
  have f: "VAR_FindByName demo_int32_server (trace ?w) (hVarServer ?w) (c_str ''temperature'') = 1"
    by (simp add: demo_int32_server_def demo_extern_def c_str_def)
  have i: "1 \<noteq> VAR_INVALID demo_int32_server"
    by (simp add: demo_int32_server_def demo_extern_def)
  have g: "VAR_Get demo_int32_server
             (trace ?w @ [Call_VAR_FindByName (hVarServer ?w) (c_str ''temperature'')])
             (hVarServer ?w) 1 (BUFSIZ demo_int32_server) = (EOK demo_int32_server, ?var)"
    by (simp add: demo_int32_server_def demo_extern_def)
  have t: "var_type ?var = VARTYPE_INT32" "trace ?w = []" "hVarServer ?w = Some 1"
    "stack ?w = [LuaString ''temperature'']"
    by (simp_all add: demo_world_def)
  let ?u = "demo_world\<lparr>stack := [LuaNumber 7]\<rparr>"
  have n: "luaL_checknumber demo_int32_server ?u 1 = Inr 7"
    by (simp add: luaL_checknumber_def lua_arg_def)
  have c: "double_to_uint32 7 = Inr 7"
    by (simp add: double_to_uint32_def c_trunc_def)
  have r: "VAR_GetValidationRequest demo_int32_server (trace ?u) (hVarServer ?u) 7
             (BUFSIZ demo_int32_server) =
           (EOK demo_int32_server, 1, demo_var\<lparr>var_type := VARTYPE_INT32, val_l := 30\<rparr>)"
    by (simp add: demo_int32_server_def demo_extern_def)
  have r': "VAR_GetValidationRequest demo_int32_server [] (Some 1) 7 8192 =
           (EOK demo_int32_server, 1, demo_var\<lparr>var_type := VARTYPE_INT32, val_l := 30\<rparr>)"
    by (simp add: demo_int32_server_def demo_extern_def)
  have s: "VAR_GetValidationRequest demo_extern [] (Some 1) 7 8192 =
       (EOK demo_extern, 1, demo_var\<lparr>var_type := VARTYPE_STR, val_str := ''30''\<rparr>)"
    by (simp add: demo_extern_def)
  have s': "lua_results (var_validate_start demo_extern ?u) = Inr [LuaNumber 1, LuaString ''30'']"
    by (simp add: var_validate_start_def demo_extern_def demo_world_def
        demo_var_def lua_defs double_to_uint32_def c_trunc_def)
  note kinds = var_get_supported_kinds [OF a f i g]
  from kinds have 1: "lua_results (var_get demo_int32_server ?w) = Inr []"
    and 2: "stack (fst (var_get demo_int32_server ?w)) = stack ?w @ [LuaNil]"
    using t by simp_all
  from kinds n c r
  have 3: "lua_results (var_validate_start demo_int32_server ?u) =
             Inr [LuaNumber 1, LuaNumber 30]"
    by (simp add: demo_var_def)
  from 1 2 3 t a f i g r' s s' show ?thesis
    by simp
qed

subsection \<open>Writing a variable\<close>

lemma var_set_handle_world:
  assumes "var_set_handle X w = (w1, r)"
  shows "stack w1 = stack w \<and> hVarServer w1 = hVarServer w
         \<and> length (trace w) \<le> length (trace w1)
         \<and> filter is_VAR_SetStr (new_calls w w1) = []"
  using assms
  by (auto simp add: var_set_handle_def record_call_def new_calls_def Let_def
      split: if_splits sum.splits)

text \<open>
  Claim C5. The value argument being a string (or a number, which Lua reads as its
  text): when the first argument of \<open>var_set\<close> resolves to the invalid handle, or the
  query for the type of the variable does not answer \<^verbatim>\<open>EOK\<close>, \<open>var_set\<close>
  returns no result, so the caller reads the absent value nil and never the success
  value 1, and the call makes no \<^verbatim>\<open>VAR_SetStr\<close> request.
\<close>

theorem var_set_fails_without_set:
  assumes "var_set_handle X w = (w1, Inr h)"
    and "luaL_checklstring X w 2 = Inr val"
    and "h = VAR_INVALID X \<or> fst (VAR_GetType X (trace w1) (hVarServer w1) h) \<noteq> EOK X"
  shows "lua_results (var_set X w) = Inr []
         \<and> lua_result1 (var_set X w) = Inr LuaNil
         \<and> filter is_VAR_SetStr (new_calls w (fst (var_set X w))) = []"
proof -
  from var_set_handle_world [OF assms(1)]
  have st: "stack w1 = stack w" and tr: "filter is_VAR_SetStr (new_calls w w1) = []"
    and le: "length (trace w) \<le> length (trace w1)"
    by simp_all
  have "luaL_checklstring X w1 2 = luaL_checklstring X w 2"
    using st by (simp add: luaL_checklstring_def lua_arg_def)
  with assms(2) have arg: "luaL_checklstring X w1 2 = Inr val"
    by simp
  show ?thesis
  proof (cases "h = VAR_INVALID X")
    case True
    then show ?thesis using assms(1) arg tr
      by (simp add: var_set_def lua_defs)
  next
    case False
    obtain rc vtype where ty: "VAR_GetType X (trace w1) (hVarServer w1) h = (rc, vtype)"
      by (cases "VAR_GetType X (trace w1) (hVarServer w1) h")
    with False assms(3) have "rc \<noteq> EOK X" by simp
    with False ty show ?thesis using assms(1) arg tr le
      by (simp add: var_set_def lua_defs)
  qed
qed

text \<open>
  The witness takes both cases: the unknown name \<^verbatim>\<open>pressure\<close>, and the handle 2,
  for which the type query fails.
\<close>

theorem var_set_fails_without_set_witness:
  "(var_set_handle demo_extern (demo_world\<lparr>stack := [LuaString ''pressure'', LuaString ''25'']\<rparr>) =
      (record_call (Call_VAR_FindByName (Some 1) ''pressure'')
         (demo_world\<lparr>stack := [LuaString ''pressure'', LuaString ''25'']\<rparr>),
       Inr (VAR_INVALID demo_extern))
    \<and> luaL_checklstring demo_extern
          (demo_world\<lparr>stack := [LuaString ''pressure'', LuaString ''25'']\<rparr>) 2 = Inr ''25''

    \<and> lua_results (var_set demo_extern
          (demo_world\<lparr>stack := [LuaString ''pressure'', LuaString ''25'']\<rparr>)) = Inr []
    \<and> new_calls (demo_world\<lparr>stack := [LuaString ''pressure'', LuaString ''25'']\<rparr>)
          (fst (var_set demo_extern
             (demo_world\<lparr>stack := [LuaString ''pressure'', LuaString ''25'']\<rparr>))) =
        [Call_VAR_FindByName (Some 1) ''pressure''])
   \<and> (var_set_handle demo_extern (demo_world\<lparr>stack := [LuaNumber 2, LuaString ''25'']\<rparr>) =
      (demo_world\<lparr>stack := [LuaNumber 2, LuaString ''25'']\<rparr>, Inr 2)
    \<and> fst (VAR_GetType demo_extern [] (Some 1) 2) \<noteq> EOK demo_extern
    \<and> lua_results (var_set demo_extern
          (demo_world\<lparr>stack := [LuaNumber 2, LuaString ''25'']\<rparr>)) = Inr []
    \<and> new_calls (demo_world\<lparr>stack := [LuaNumber 2, LuaString ''25'']\<rparr>)
          (fst (var_set demo_extern (demo_world\<lparr>stack := [LuaNumber 2, LuaString ''25'']\<rparr>))) =
        [Call_VAR_GetType (Some 1) 2])"
proof -
  let ?w = "demo_world\<lparr>stack := [LuaString ''pressure'', LuaString ''25'']\<rparr>"
  let ?v = "demo_world\<lparr>stack := [LuaNumber 2, LuaString ''25'']\<rparr>"
  have h1: "var_set_handle demo_extern ?w =
      (record_call (Call_VAR_FindByName (Some 1) ''pressure'') ?w, Inr (VAR_INVALID demo_extern))"
    by (simp add: var_set_handle_def demo_extern_def demo_world_def lua_defs c_str_def)
  have a1: "luaL_checklstring demo_extern ?w 2 = Inr ''25''"
    by (simp add: luaL_checklstring_def lua_arg_def)
  have h2: "var_set_handle demo_extern ?v = (?v, Inr 2)"
    by (simp add: var_set_handle_def demo_extern_def demo_world_def lua_defs
        double_to_uint32_def c_trunc_def)
  have a2: "luaL_checklstring demo_extern ?v 2 = Inr ''25''"
    by (simp add: luaL_checklstring_def lua_arg_def)
  have g2: "fst (VAR_GetType demo_extern [] (Some 1) 2) \<noteq> EOK demo_extern"
    by (simp add: demo_extern_def)
  have t2: "trace ?v = []" "hVarServer ?v = Some 1"
    by (simp_all add: demo_world_def)
  note r1 = var_set_fails_without_set [OF h1 a1]
  note r2 = var_set_fails_without_set [OF h2 a2]
  have c1: "new_calls ?w (fst (var_set demo_extern ?w)) =
      [Call_VAR_FindByName (Some 1) ''pressure'']"
    by (simp add: var_set_def var_set_handle_def demo_extern_def demo_world_def lua_defs
        c_str_def)
  have c2: "new_calls ?v (fst (var_set demo_extern ?v)) = [Call_VAR_GetType (Some 1) 2]"
    by (simp add: var_set_def var_set_handle_def demo_extern_def demo_world_def lua_defs
        double_to_uint32_def c_trunc_def)
  show ?thesis using h1 a1 h2 a2 g2 r1 r2 t2 c1 c2 by simp
qed

subsection \<open>Closing a print session\<close>

text \<open>The concrete session is the one that opening the print request 42 makes.\<close>

lemma demo_open_print_session:
  "lua_call (var_open_print_session demo_extern) [LuaNumber 42] demo_world =
     (demo_session_world\<lparr>stack := []\<rparr>, Inr [LuaUserdata 0, LuaNumber 1])"
  by (simp add: lua_call_def var_open_print_session_def demo_extern_def demo_world_def
      demo_session_world_def lua_defs double_to_uint32_def c_trunc_def)

text \<open>What \<open>var_close_print_session\<close> does for a session whose stream is open.\<close>

lemma var_close_print_session_open_stream:
  assumes "lua_arg w 1 = Some (LuaUserdata p)" and "udata w p = Some (UD_PrintSession s)"
    and "stream_f s = Some fp"
  shows "var_close_print_session X w =
     (let rc = VAR_ClosePrintSession X (trace w) (hVarServer w) (session_id s) (session_fd s);
          w3 = w\<lparr>trace := trace w @
                     [Call_VAR_ClosePrintSession (hVarServer w) (session_id s) (session_fd s),
                      Call_fclose fp],
                 udata := (udata w)(p \<mapsto> UD_PrintSession cleared_session)\<rparr>
      in if rc = EOK X then (lua_pushnumber 1 w3, Inr 1)
         else (lua_pushstring (strerror X rc) (lua_pushnil w3), Inr 2))"
proof -
  have "luaL_checkudata w 1 = Inr (p, UD_PrintSession s)"
    using assms(1,2) by (simp add: luaL_checkudata_def)
  then show ?thesis using assms(3)
    by (simp add: var_close_print_session_def record_call_def Let_def)
qed

text \<open>
  Claim C1, as the code has it. Every close of a print session with an open stream
  first tells the server that the session is finished
  (\<^verbatim>\<open>VAR_ClosePrintSession\<close>) and only afterwards closes the local stream
  (\<^verbatim>\<open>fclose\<close>); it makes these two calls and no other.
\<close>

theorem var_close_print_session_server_first:
  assumes "lua_arg w 1 = Some (LuaUserdata p)" and "udata w p = Some (UD_PrintSession s)"
    and "stream_f s = Some fp"
  shows "new_calls w (fst (var_close_print_session X w)) =
           [Call_VAR_ClosePrintSession (hVarServer w) (session_id s) (session_fd s),
            Call_fclose fp]
         \<and> precedes (Call_VAR_ClosePrintSession (hVarServer w) (session_id s) (session_fd s))
             (Call_fclose fp) (new_calls w (fst (var_close_print_session X w)))"
  by (simp add: var_close_print_session_open_stream [OF assms] lua_defs Let_def precedes_def)

theorem var_close_print_session_server_first_witness:
  "lua_arg demo_session_world 1 = Some (LuaUserdata 0)
   \<and> udata demo_session_world 0 =
       Some (UD_PrintSession
         \<lparr>stream_f = Some 1000, stream_closef = True, session_fd = 5, session_id = 42,
          session_hVar = 1\<rparr>)
   \<and> new_calls demo_session_world
       (fst (var_close_print_session demo_extern demo_session_world)) =
       [Call_VAR_ClosePrintSession (Some 1) 42 5, Call_fclose 1000]
   \<and> precedes (Call_VAR_ClosePrintSession (Some 1) 42 5) (Call_fclose 1000)
       (new_calls demo_session_world
          (fst (var_close_print_session demo_extern demo_session_world)))"
proof -
  let ?s = "\<lparr>stream_f = Some 1000, stream_closef = True, session_fd = 5, session_id = 42,
             session_hVar = 1\<rparr>"
  have a: "lua_arg demo_session_world 1 = Some (LuaUserdata 0)"
    by (simp add: lua_arg_def demo_session_world_def)
  have u: "udata demo_session_world 0 = Some (UD_PrintSession ?s)"
    by (simp add: demo_session_world_def)
  have f: "stream_f ?s = Some 1000"
    by simp
  have t: "hVarServer demo_session_world = Some 1"
    by (simp add: demo_session_world_def)
  from var_close_print_session_server_first [OF a u f, of demo_extern] t a u
  show ?thesis
    by auto
qed

text \<open>
  Claim C1 as the specification states it fails: closing the concrete session makes
  the request to the server first and \<^verbatim>\<open>fclose\<close> second, so the release of the local
  stream does not precede the request.
\<close>

theorem var_close_print_session_order_counterexample:
  "new_calls demo_session_world
     (fst (var_close_print_session demo_extern demo_session_world)) =
     [Call_VAR_ClosePrintSession (Some 1) 42 5, Call_fclose 1000]
   \<and> \<not> precedes (Call_fclose 1000) (Call_VAR_ClosePrintSession (Some 1) 42 5)
        (new_calls demo_session_world
           (fst (var_close_print_session demo_extern demo_session_world)))"
  by (simp add: var_close_print_session_def demo_session_world_def demo_extern_def
      lua_defs precedes_def cleared_session_def)

text \<open>
  Claim C2. Every close of a print session with an open stream closes the local stream
  and clears the session object, whatever the server answers to the close request. When
  the answer is not \<^verbatim>\<open>EOK\<close> the results are nil and the text of that error code;
  when it is, the result is 1.
\<close>

theorem var_close_print_session_releases_stream:
  assumes "lua_arg w 1 = Some (LuaUserdata p)" and "udata w p = Some (UD_PrintSession s)"
    and "stream_f s = Some fp"
  shows "(let rc = VAR_ClosePrintSession X (trace w) (hVarServer w) (session_id s) (session_fd s);
              r = var_close_print_session X w
          in Call_fclose fp \<in> set (new_calls w (fst r))
             \<and> udata (fst r) p = Some (UD_PrintSession cleared_session)
             \<and> (rc \<noteq> EOK X \<longrightarrow> lua_results r = Inr [LuaNil, LuaString (strerror X rc)])
             \<and> (rc = EOK X \<longrightarrow> lua_results r = Inr [LuaNumber 1]))"
  by (simp add: var_close_print_session_open_stream [OF assms] lua_defs Let_def)

theorem var_close_print_session_releases_stream_witness:
  "lua_arg demo_session_world 1 = Some (LuaUserdata 0)
   \<and> udata demo_session_world 0 =
       Some (UD_PrintSession
         \<lparr>stream_f = Some 1000, stream_closef = True, session_fd = 5, session_id = 42,
          session_hVar = 1\<rparr>)
   \<and> VAR_ClosePrintSession demo_failed_close (trace demo_session_world) (Some 1) 42 5 = 9
   \<and> 9 \<noteq> EOK demo_failed_close
   \<and> Call_fclose 1000 \<in> set (new_calls demo_session_world
         (fst (var_close_print_session demo_failed_close demo_session_world)))
   \<and> udata (fst (var_close_print_session demo_failed_close demo_session_world)) 0 =
       Some (UD_PrintSession cleared_session)
   \<and> lua_results (var_close_print_session demo_failed_close demo_session_world) =
       Inr [LuaNil, LuaString ''Bad file descriptor'']"
proof -
  let ?s = "\<lparr>stream_f = Some 1000, stream_closef = True, session_fd = 5, session_id = 42,
             session_hVar = 1\<rparr>"
  have a: "lua_arg demo_session_world 1 = Some (LuaUserdata 0)"
    by (simp add: lua_arg_def demo_session_world_def)
  have u: "udata demo_session_world 0 = Some (UD_PrintSession ?s)"
    by (simp add: demo_session_world_def)
  have f: "stream_f ?s = Some 1000"
    by simp
  have t: "hVarServer demo_session_world = Some 1"
    "VAR_ClosePrintSession demo_failed_close (trace demo_session_world) (Some 1) 42 5 = 9"
    "EOK demo_failed_close = 0" "strerror demo_failed_close 9 = ''Bad file descriptor''"
    by (simp_all add: demo_session_world_def demo_failed_close_def demo_extern_def)
  from var_close_print_session_releases_stream [OF a u f, of demo_failed_close] t a u
  show ?thesis
    by (simp add: Let_def)
qed

text \<open>
  Claim C6, evaluated. Opening the print request 42 makes the concrete session. The
  first close of the session succeeds and clears the session object. The second close of the same object is not rejected: it sends the
  server a close request for the session 0 on the descriptor 0 and then calls
  \<^verbatim>\<open>fclose\<close> on a null pointer.
\<close>

theorem var_close_print_session_twice:
  "lua_call (var_open_print_session demo_extern) [LuaNumber 42] demo_world =
     (demo_session_world\<lparr>stack := []\<rparr>, Inr [LuaUserdata 0, LuaNumber 1])
   \<and> lua_call (var_close_print_session demo_extern) [LuaUserdata 0] demo_session_world =
     (demo_session_world
        \<lparr>udata := [0 \<mapsto> UD_PrintSession cleared_session],
         trace := [Call_VAR_OpenPrintSession (Some 1) 42, Call_fdopen 5 ''w'',
                   Call_VAR_ClosePrintSession (Some 1) 42 5, Call_fclose 1000]\<rparr>,
      Inr [LuaNumber 1])
   \<and> lua_call (var_close_print_session demo_extern) [LuaUserdata 0]
       (fst (lua_call (var_close_print_session demo_extern) [LuaUserdata 0] demo_session_world)) =
     (demo_session_world
        \<lparr>udata := [0 \<mapsto> UD_PrintSession cleared_session],
         trace := [Call_VAR_OpenPrintSession (Some 1) 42, Call_fdopen 5 ''w'',
                   Call_VAR_ClosePrintSession (Some 1) 42 5, Call_fclose 1000,
                   Call_VAR_ClosePrintSession (Some 1) 0 0]\<rparr>,
      Inl (UndefinedBehaviour ''fclose(NULL)''))"
  by (simp add: lua_call_def var_open_print_session_def var_close_print_session_def
      demo_session_world_def demo_world_def demo_extern_def lua_defs cleared_session_def
      double_to_uint32_def c_trunc_def)

subsection \<open>The session handle\<close>

text \<open>Loading the library when the connection is open keeps the handle and opens nothing.\<close>

lemma luaopen_libluavars_keeps_handle:
  "hVarServer w \<noteq> None \<Longrightarrow>
     hVarServer (fst (luaopen_libluavars X w)) = hVarServer w
     \<and> new_calls w (fst (luaopen_libluavars X w)) = []"
  by (auto simp add: luaopen_libluavars_def lua_defs)

text \<open>Unloading leaves the static handle as it was.\<close>

lemma global_unload_keeps_handle:
  "hVarServer (fst (global_unload w)) = hVarServer w"
  by (simp add: global_unload_def record_call_def)

lemma demo_load_unload:
  "fst (lua_call global_unload []
         (fst (lua_call (luaopen_libluavars demo_extern) [] (demo_world\<lparr>hVarServer := None\<rparr>)))) =
     demo_unloaded_world"
  by (simp add: lua_call_def global_unload_def luaopen_libluavars_def
      demo_unloaded_world_def demo_world_def demo_extern_def lua_defs)

text \<open>
  Claim C7, evaluated. After the library was loaded and unloaded, the static handle
  still holds the closed connection. \<open>var_find\<close> then does not fail: it hands the closed
  handle to the client library and returns what the library answers, and loading the
  library again does not open a connection.
\<close>

theorem operations_after_unload:
  "fst (lua_call global_unload []
         (fst (lua_call (luaopen_libluavars demo_extern) [] (demo_world\<lparr>hVarServer := None\<rparr>)))) =
     demo_unloaded_world
   \<and> hVarServer demo_unloaded_world = Some 1
   \<and> lua_call (var_find demo_extern) [LuaString ''temperature''] demo_unloaded_world =
       (demo_unloaded_world
          \<lparr>trace := [Call_VARSERVER_Open, Call_VARSERVER_Close (Some 1),
                     Call_VAR_FindByName (Some 1) ''temperature'']\<rparr>,
        Inr [LuaNumber 1])
   \<and> lua_call (luaopen_libluavars demo_extern) [] demo_unloaded_world =
       (demo_unloaded_world, Inr [LuaTable])"
  by (simp add: lua_call_def global_unload_def luaopen_libluavars_def var_find_def
      demo_unloaded_world_def demo_world_def demo_extern_def lua_defs c_str_def)

end
